theory Spec2Isabelle
  imports Main
begin

section \<open>The Copyleaks client: data model\<close>

text \<open>
  The client (\<^verbatim>\<open>src/src/Copyleaks.ts\<close>) sends request descriptors through an
  axios instance. A descriptor (\<^verbatim>\<open>AxiosRequestConfig\<close>) carries the fields the
  client sets: method, url, data, headers and maxBodyLength. Submission models are
  opaque to the client and carried as they are. \<^verbatim>\<open>data\<close> is \<open>None\<close> where the
  source leaves the field out and \<open>Some Null\<close> where it writes \<^verbatim>\<open>data: null\<close>;
  \<^verbatim>\<open>maxBodyLength\<close> is either absent or \<^verbatim>\<open>Infinity\<close>.
\<close>

type_synonym model = string

datatype payload = Credentials string string | Model model | Null

datatype body_limit = Infinity

record config =
  "method" :: string
  url :: string
  data :: "payload option"
  headers :: "(string \<times> string) list"
  maxBodyLength :: "body_limit option"

text \<open>What the transport gives back: a response with a numeric status, headers and a body.\<close>

record axios_response =
  status :: int
  response_headers :: "(string \<times> string) list"
  response_data :: string

text \<open>
  What the transport raises: an error with an optional \<^verbatim>\<open>response\<close> and an optional
  \<^verbatim>\<open>code\<close> (such as \<^verbatim>\<open>ETIMEDOUT\<close>).
\<close>

record axios_error =
  response :: "axios_response option"
  code :: "string option"

text \<open>
  The effects of \<^verbatim>\<open>request\<close> that a caller can observe, in the order they happen:
  the transport is invoked with a descriptor, \<^verbatim>\<open>console.log\<close> writes the error line
  (\<^verbatim>\<open>error.response && error.response.status\<close>, then \<^verbatim>\<open>retries\<close> and
  \<^verbatim>\<open>backoff\<close>), \<^verbatim>\<open>console.log\<close> writes the backoff line with the descriptor, and
  \<^verbatim>\<open>setTimeout\<close> is asked for a delay in milliseconds.
\<close>

datatype event =
    Requested config
  | Log_error "int option" int int
  | Log_backoff config
  | Timeout int

text \<open>
  The transport is an external collaborator with effects of its own: it takes the descriptor
  and the state of the outside world, and either raises (\<open>Inl\<close>) or returns a response
  (\<open>Inr\<close>), together with the new state of the world.
\<close>

type_synonym 'w requester = "config \<Rightarrow> 'w \<Rightarrow> (axios_error + axios_response) \<times> 'w"

section \<open>The request executor\<close>

text \<open>
  The test of line 160:
  \<^verbatim>\<open>error.response && ([429, 500, 502].includes(error.response.status) || error.code === 'ETIMEDOUT')\<close>.
  An error without a response makes the conjunction false whatever its code.
\<close>

definition retryable :: "axios_error \<Rightarrow> bool" where
  "retryable error =
     (case response error of
        None \<Rightarrow> False
      | Some r \<Rightarrow> status r \<in> {429, 500, 502} \<or> code error = Some ''ETIMEDOUT'')"

definition logged_status :: "axios_error \<Rightarrow> int option" where
  "logged_status error = map_option status (response error)"

text \<open>
  \<^verbatim>\<open>request(config, requester, retries = 10, backoff = 2000)\<close>, lines 151 to 167. The
  counters are JavaScript numbers; every call in the repository starts from the defaults
  10 and 2000, so they stay integers well inside the exact range of a double and are
  modelled as \<open>int\<close>. The result is what the promise settles to (\<open>Inl\<close> the error thrown,
  \<open>Inr\<close> the response returned), the events in order, and the state of the world after
  the last transport call.
\<close>

function request ::
  "config \<Rightarrow> 'w requester \<Rightarrow> int \<Rightarrow> int \<Rightarrow> 'w \<Rightarrow> (axios_error + axios_response) \<times> event list \<times> 'w"
where
  "request config requester retries backoff w =
     (case requester config w of
        (Inr resp, w') \<Rightarrow> (Inr resp, [Requested config], w')
      | (Inl error, w') \<Rightarrow>
          if retries < 1 then
            (Inl error, [Requested config, Log_error (logged_status error) retries backoff], w')
          else if retryable error then
            (case request config requester (retries - 1) (backoff * 2) w' of
               (r, tr, w'') \<Rightarrow>
                 (r, [Requested config, Log_error (logged_status error) retries backoff,
                      Log_backoff config, Timeout backoff] @ tr, w''))
          else
            (Inl error, [Requested config, Log_error (logged_status error) retries backoff], w'))"
  by pat_completeness auto
termination
  by (relation "measure (\<lambda>(config, requester, retries, backoff, w). nat retries)") auto

declare request.simps [simp del]

text \<open>Readings of a trace: the descriptors sent, the delays asked for, the counters logged.\<close>

fun sent :: "event list \<Rightarrow> config list" where
  "sent [] = []"
| "sent (Requested c # es) = c # sent es"
| "sent (_ # es) = sent es"

fun delays :: "event list \<Rightarrow> int list" where
  "delays [] = []"
| "delays (Timeout d # es) = d # delays es"
| "delays (_ # es) = delays es"

fun counters :: "event list \<Rightarrow> int list" where
  "counters [] = []"
| "counters (Log_error s r b # es) = r # counters es"
| "counters (_ # es) = counters es"

section \<open>Dates\<close>

text \<open>
  \<^verbatim>\<open>verifyAuthToken\<close> works on JavaScript \<^verbatim>\<open>Date\<close> objects. A time value is a number of
  milliseconds since the epoch, or NaN (\<open>None\<close>) for an invalid date. What the JavaScript
  runtime supplies is a parameter: the clock (\<^verbatim>\<open>Date.now()\<close>), the offset of the host's time
  zone (ECMAScript's \<^verbatim>\<open>LocalTZA(t, isUTC)\<close>: the offset in milliseconds in force at the UTC
  instant \<open>t\<close> when \<open>isUTC\<close> holds, and the offset with which the local wall-clock time \<open>t\<close>
  is read otherwise), and the date parser (\<^verbatim>\<open>Date.parse\<close>, NaN for a string that is not a
  date).
\<close>

type_synonym time_value = "int option"

record runtime =
  Date_now :: int
  LocalTZA :: "int \<Rightarrow> bool \<Rightarrow> int"
  Date_parse :: "string \<Rightarrow> time_value"

definition msPerSecond :: int where "msPerSecond = 1000"
definition msPerMinute :: int where "msPerMinute = 60000"
definition msPerHour :: int where "msPerHour = 3600000"
definition msPerDay :: int where "msPerDay = 86400000"

definition Day :: "int \<Rightarrow> int" where
  "Day t = t div msPerDay"

definition HourFromTime :: "int \<Rightarrow> int" where
  "HourFromTime t = (t div msPerHour) mod 24"

definition MinFromTime :: "int \<Rightarrow> int" where
  "MinFromTime t = (t div msPerMinute) mod 60"

definition SecFromTime :: "int \<Rightarrow> int" where
  "SecFromTime t = (t div msPerSecond) mod 60"

definition msFromTime :: "int \<Rightarrow> int" where
  "msFromTime t = t mod msPerSecond"

definition MakeTime :: "int \<Rightarrow> int \<Rightarrow> int \<Rightarrow> int \<Rightarrow> int" where
  "MakeTime hour minute sec ms = hour * msPerHour + minute * msPerMinute + sec * msPerSecond + ms"

definition MakeDate :: "int \<Rightarrow> int \<Rightarrow> int" where
  "MakeDate day time = day * msPerDay + time"

definition TimeClip :: "int \<Rightarrow> time_value" where
  "TimeClip t = (if \<bar>t\<bar> > 8640000000000000 then None else Some t)"

definition LocalTime :: "runtime \<Rightarrow> int \<Rightarrow> int" where
  "LocalTime rt t = t + LocalTZA rt t True"

definition UTC :: "runtime \<Rightarrow> int \<Rightarrow> int" where
  "UTC rt t = t - LocalTZA rt t False"

text \<open>
  \<^verbatim>\<open>date.getMinutes()\<close> reads the minutes of the local wall-clock time;
  \<^verbatim>\<open>date.setMinutes(minute)\<close> replaces the minutes field of the local wall-clock time and
  converts the result back to a UTC instant. Both give NaN on an invalid date.
\<close>

definition getMinutes :: "runtime \<Rightarrow> time_value \<Rightarrow> int option" where
  "getMinutes rt date = map_option (\<lambda>t. MinFromTime (LocalTime rt t)) date"

definition setMinutes :: "runtime \<Rightarrow> time_value \<Rightarrow> int option \<Rightarrow> time_value" where
  "setMinutes rt date minute =
     (case date of
        None \<Rightarrow> None
      | Some t \<Rightarrow>
          (case minute of
             None \<Rightarrow> None
           | Some m \<Rightarrow>
               (let t' = LocalTime rt t
                in TimeClip (UTC rt (MakeDate (Day t')
                     (MakeTime (HourFromTime t') m (SecFromTime t') (msFromTime t')))))))"

section \<open>The token guard\<close>

text \<open>
  The declaration of \<^verbatim>\<open>CopyleaksAuthToken\<close> (\<^verbatim>\<open>./models/response\<close>) is not among the
  sources. The record holds the two fields the client reads: \<^verbatim>\<open>access_token\<close>, and
  \<^verbatim>\<open>.expires\<close> (here \<open>expires\<close>), the text of a date as the login response carries it.
\<close>

record CopyleaksAuthToken =
  access_token :: string
  expires :: string

datatype exception =
    AuthExipredException
  | UnderMaintenanceException
  | RateLimitException
  | CommandException axios_response
  | AxiosError axios_error
  | Error string exception

text \<open>
  The two local values of \<^verbatim>\<open>verifyAuthToken\<close> (lines 100 to 103):
  \<^verbatim>\<open>date\<close>, which is \<^verbatim>\<open>new Date(Date.now())\<close> after
  \<^verbatim>\<open>date.setMinutes(date.getMinutes() + timeUntilExpiry)\<close>, and
  \<^verbatim>\<open>expiresDate\<close>, which is \<^verbatim>\<open>new Date(authToken['.expires'])\<close>.
  The margin is a whole number of minutes (every caller passes the default 5).
\<close>

definition verifyAuthToken_date :: "runtime \<Rightarrow> int \<Rightarrow> time_value" where
  "verifyAuthToken_date rt timeUntilExpiry =
     (let date = TimeClip (Date_now rt)
      in setMinutes rt date (map_option (\<lambda>m. m + timeUntilExpiry) (getMinutes rt date)))"

definition verifyAuthToken_expiresDate :: "runtime \<Rightarrow> CopyleaksAuthToken \<Rightarrow> time_value" where
  "verifyAuthToken_expiresDate rt authToken =
     Option.bind (Date_parse rt (expires authToken)) TimeClip"

text \<open>
  \<^verbatim>\<open>verifyAuthToken(authToken, timeUntilExpiry = 5)\<close>, lines 98 to 108. The comparison
  \<^verbatim>\<open>expiresDate.getTime() <= date.getTime()\<close> is false when either side is NaN.
\<close>

definition verifyAuthToken :: "runtime \<Rightarrow> CopyleaksAuthToken \<Rightarrow> int \<Rightarrow> exception + unit" where
  "verifyAuthToken rt authToken timeUntilExpiry =
     (case (verifyAuthToken_expiresDate rt authToken, verifyAuthToken_date rt timeUntilExpiry) of
        (Some e, Some d) \<Rightarrow> if e \<le> d then Inl AuthExipredException else Inr ()
      | _ \<Rightarrow> Inr ())"

section \<open>Status classification helpers\<close>

text \<open>
  Modelled from the spec: \<^verbatim>\<open>isSuccessStatusCode\<close>, \<^verbatim>\<open>isUnderMaintenanceResponse\<close> and
  \<^verbatim>\<open>isRateLimitResponse\<close> are imported from \<^verbatim>\<open>./utils\<close>, which is not among the
  sources. The spec gives success as the range 200 to 299 inclusive, and under-maintenance
  and rate-limited each as one reserved status value. The two reserved values are
  parameters.
\<close>

record reserved_status =
  under_maintenance :: int
  rate_limit :: int

definition isSuccessStatusCode :: "int \<Rightarrow> bool" where
  "isSuccessStatusCode s = (200 \<le> s \<and> s \<le> 299)"

definition isUnderMaintenanceResponse :: "reserved_status \<Rightarrow> int \<Rightarrow> bool" where
  "isUnderMaintenanceResponse rv s = (s = under_maintenance rv)"

definition isRateLimitResponse :: "reserved_status \<Rightarrow> int \<Rightarrow> bool" where
  "isRateLimitResponse rv s = (s = rate_limit rv)"

section \<open>The public operations\<close>

text \<open>
  The class holds two axios instances: \<^verbatim>\<open>api\<close>, the default requester of
  \<^verbatim>\<open>request\<close>, and \<^verbatim>\<open>accountApi\<close>, which only \<^verbatim>\<open>loginAsync\<close> passes.
\<close>

record 'w Copyleaks =
  api :: "'w requester"
  accountApi :: "'w requester"

datatype product = education | businesses

fun product_segment :: "product \<Rightarrow> string" where
  "product_segment education = ''education''"
| "product_segment businesses = ''businesses''"

text \<open>
  An operation settles to an exception (\<open>Inl\<close>) or returns (\<open>Inr\<close>): \<open>Some\<close> of
  \<^verbatim>\<open>response.data\<close>, or \<open>None\<close> where the source returns nothing. With it come the events
  of the call and the state of the world afterwards. Each operation below follows its
  source method statement by statement.
\<close>

type_synonym 'w outcome = "(exception + string option) \<times> event list \<times> 'w"

text \<open>\<^verbatim>\<open>loginAsync\<close>, lines 70 to 90.\<close>

definition loginAsync ::
  "runtime \<Rightarrow> reserved_status \<Rightarrow> 'w Copyleaks \<Rightarrow> string \<Rightarrow> string \<Rightarrow> 'w \<Rightarrow> 'w outcome"
where
  "loginAsync rt rv this email key w =
     (case request
             \<lparr>method = ''POST'', url = ''/v3/account/login/api'',
                  data = Some (Credentials email key),
                  headers = [],
                  maxBodyLength = None\<rparr>
             (accountApi this) 10 2000 w of
        (Inl error, tr, w') \<Rightarrow> (Inl (AxiosError error), tr, w')
      | (Inr resp, tr, w') \<Rightarrow>
          (if isSuccessStatusCode (status resp) then Inr (Some (response_data resp))
           else if isUnderMaintenanceResponse rv (status resp) then Inl UnderMaintenanceException
           else Inl (CommandException resp), tr, w'))"

text \<open>\<^verbatim>\<open>submitFileAsync\<close>, lines 126 to 149; the only operation that catches what \<^verbatim>\<open>request\<close> throws, and
  throws a new \<^verbatim>\<open>Error\<close> with the caught error as its cause.\<close>

definition submitFileAsync ::
  "runtime \<Rightarrow> reserved_status \<Rightarrow> 'w Copyleaks \<Rightarrow> product \<Rightarrow> CopyleaksAuthToken \<Rightarrow> string \<Rightarrow> model \<Rightarrow> 'w \<Rightarrow> 'w outcome"
where
  "submitFileAsync rt rv this product authToken scanId submission w =
     (case verifyAuthToken rt authToken 5 of
        Inl expired \<Rightarrow> (Inl expired, [], w)
      | Inr _ \<Rightarrow>
          (case request
                  \<lparr>method = ''PUT'', url = ''/v3/'' @ product_segment product @ ''/submit/file/'' @ scanId,
                  data = Some (Model submission),
                  headers = [(''Authorization'', ''Bearer '' @ access_token authToken)],
                  maxBodyLength = Some Infinity\<rparr>
                  (api this) 10 2000 w of
             (Inl error, tr, w') \<Rightarrow> (Inl (Error (''Failed to submit file to Copyleaks API for scan with ID '' @ [CHR 0x27] @ scanId @ [CHR 0x27] @ ''.'')
                                           (AxiosError error)), tr, w')
           | (Inr resp, tr, w') \<Rightarrow>
               (if isSuccessStatusCode (status resp) then Inr None
                else if isUnderMaintenanceResponse rv (status resp) then Inl UnderMaintenanceException
                else Inl (CommandException resp), tr, w')))"

text \<open>\<^verbatim>\<open>submitFileOcrAsync\<close>, lines 185 to 202.\<close>

definition submitFileOcrAsync ::
  "runtime \<Rightarrow> reserved_status \<Rightarrow> 'w Copyleaks \<Rightarrow> product \<Rightarrow> CopyleaksAuthToken \<Rightarrow> string \<Rightarrow> model \<Rightarrow> 'w \<Rightarrow> 'w outcome"
where
  "submitFileOcrAsync rt rv this product authToken scanId submission w =
     (case verifyAuthToken rt authToken 5 of
        Inl expired \<Rightarrow> (Inl expired, [], w)
      | Inr _ \<Rightarrow>
          (case request
                  \<lparr>method = ''PUT'', url = ''/v3/'' @ product_segment product @ ''/submit/ocr/'' @ scanId,
                  data = Some (Model submission),
                  headers = [(''Authorization'', ''Bearer '' @ access_token authToken)],
                  maxBodyLength = Some Infinity\<rparr>
                  (api this) 10 2000 w of
             (Inl error, tr, w') \<Rightarrow> (Inl (AxiosError error), tr, w')
           | (Inr resp, tr, w') \<Rightarrow>
               (if isSuccessStatusCode (status resp) then Inr None
                else if isUnderMaintenanceResponse rv (status resp) then Inl UnderMaintenanceException
                else Inl (CommandException resp), tr, w')))"

text \<open>\<^verbatim>\<open>submitUrlAsync\<close>, lines 220 to 237.\<close>

definition submitUrlAsync ::
  "runtime \<Rightarrow> reserved_status \<Rightarrow> 'w Copyleaks \<Rightarrow> product \<Rightarrow> CopyleaksAuthToken \<Rightarrow> string \<Rightarrow> model \<Rightarrow> 'w \<Rightarrow> 'w outcome"
where
  "submitUrlAsync rt rv this product authToken scanId submission w =
     (case verifyAuthToken rt authToken 5 of
        Inl expired \<Rightarrow> (Inl expired, [], w)
      | Inr _ \<Rightarrow>
          (case request
                  \<lparr>method = ''PUT'', url = ''/v3/'' @ product_segment product @ ''/submit/url/'' @ scanId,
                  data = Some (Model submission),
                  headers = [(''Authorization'', ''Bearer '' @ access_token authToken)],
                  maxBodyLength = Some Infinity\<rparr>
                  (api this) 10 2000 w of
             (Inl error, tr, w') \<Rightarrow> (Inl (AxiosError error), tr, w')
           | (Inr resp, tr, w') \<Rightarrow>
               (if isSuccessStatusCode (status resp) then Inr None
                else if isUnderMaintenanceResponse rv (status resp) then Inl UnderMaintenanceException
                else Inl (CommandException resp), tr, w')))"

text \<open>\<^verbatim>\<open>exportAsync\<close>, lines 254 to 271.\<close>

definition exportAsync ::
  "runtime \<Rightarrow> reserved_status \<Rightarrow> 'w Copyleaks \<Rightarrow> CopyleaksAuthToken \<Rightarrow> string \<Rightarrow> string \<Rightarrow> model \<Rightarrow> 'w \<Rightarrow> 'w outcome"
where
  "exportAsync rt rv this authToken scanId exportId model w =
     (case verifyAuthToken rt authToken 5 of
        Inl expired \<Rightarrow> (Inl expired, [], w)
      | Inr _ \<Rightarrow>
          (case request
                  \<lparr>method = ''POST'', url = ''/v3/downloads/'' @ scanId @ ''/export/'' @ exportId,
                  data = Some (Model model),
                  headers = [(''Authorization'', ''Bearer '' @ access_token authToken)],
                  maxBodyLength = Some Infinity\<rparr>
                  (api this) 10 2000 w of
             (Inl error, tr, w') \<Rightarrow> (Inl (AxiosError error), tr, w')
           | (Inr resp, tr, w') \<Rightarrow>
               (if isSuccessStatusCode (status resp) then Inr None
                else if isUnderMaintenanceResponse rv (status resp) then Inl UnderMaintenanceException
                else Inl (CommandException resp), tr, w')))"

text \<open>\<^verbatim>\<open>startAsync\<close>, lines 288 to 305.\<close>

definition startAsync ::
  "runtime \<Rightarrow> reserved_status \<Rightarrow> 'w Copyleaks \<Rightarrow> product \<Rightarrow> CopyleaksAuthToken \<Rightarrow> model \<Rightarrow> 'w \<Rightarrow> 'w outcome"
where
  "startAsync rt rv this product authToken model w =
     (case verifyAuthToken rt authToken 5 of
        Inl expired \<Rightarrow> (Inl expired, [], w)
      | Inr _ \<Rightarrow>
          (case request
                  \<lparr>method = ''PATCH'', url = ''/v3/'' @ product_segment product @ ''/start'',
                  data = Some (Model model),
                  headers = [(''Authorization'', ''Bearer '' @ access_token authToken)],
                  maxBodyLength = Some Infinity\<rparr>
                  (api this) 10 2000 w of
             (Inl error, tr, w') \<Rightarrow> (Inl (AxiosError error), tr, w')
           | (Inr resp, tr, w') \<Rightarrow>
               (if isSuccessStatusCode (status resp) then Inr (Some (response_data resp))
                else if isUnderMaintenanceResponse rv (status resp) then Inl UnderMaintenanceException
                else Inl (CommandException resp), tr, w')))"

text \<open>\<^verbatim>\<open>deleteAsync\<close>, lines 322 to 342.\<close>

definition deleteAsync ::
  "runtime \<Rightarrow> reserved_status \<Rightarrow> 'w Copyleaks \<Rightarrow> product \<Rightarrow> CopyleaksAuthToken \<Rightarrow> model \<Rightarrow> 'w \<Rightarrow> 'w outcome"
where
  "deleteAsync rt rv this product authToken payloads w =
     (case verifyAuthToken rt authToken 5 of
        Inl expired \<Rightarrow> (Inl expired, [], w)
      | Inr _ \<Rightarrow>
          (case request
                  \<lparr>method = ''PATCH'', url = ''/v3.1/'' @ product_segment product @ ''/delete'',
                  data = Some (Model payloads),
                  headers = [(''Authorization'', ''Bearer '' @ access_token authToken)],
                  maxBodyLength = Some Infinity\<rparr>
                  (api this) 10 2000 w of
             (Inl error, tr, w') \<Rightarrow> (Inl (AxiosError error), tr, w')
           | (Inr resp, tr, w') \<Rightarrow>
               (if isSuccessStatusCode (status resp) then Inr None
                else if isUnderMaintenanceResponse rv (status resp) then Inl UnderMaintenanceException
                else if isRateLimitResponse rv (status resp) then Inl RateLimitException
                else Inl (CommandException resp), tr, w')))"

text \<open>\<^verbatim>\<open>resendWebhookAsync\<close>, lines 359 to 375.\<close>

definition resendWebhookAsync ::
  "runtime \<Rightarrow> reserved_status \<Rightarrow> 'w Copyleaks \<Rightarrow> product \<Rightarrow> CopyleaksAuthToken \<Rightarrow> string \<Rightarrow> 'w \<Rightarrow> 'w outcome"
where
  "resendWebhookAsync rt rv this product authToken scanId w =
     (case verifyAuthToken rt authToken 5 of
        Inl expired \<Rightarrow> (Inl expired, [], w)
      | Inr _ \<Rightarrow>
          (case request
                  \<lparr>method = ''POST'', url = ''/v3/'' @ product_segment product @ ''/scans/'' @ scanId @ ''/webhooks/resend'',
                  data = Some Null,
                  headers = [(''Authorization'', ''Bearer '' @ access_token authToken)],
                  maxBodyLength = None\<rparr>
                  (api this) 10 2000 w of
             (Inl error, tr, w') \<Rightarrow> (Inl (AxiosError error), tr, w')
           | (Inr resp, tr, w') \<Rightarrow>
               (if isSuccessStatusCode (status resp) then Inr None
                else if isUnderMaintenanceResponse rv (status resp) then Inl UnderMaintenanceException
                else Inl (CommandException resp), tr, w')))"

text \<open>\<^verbatim>\<open>getCreditsBalanceAsync\<close>, lines 392 to 409.\<close>

definition getCreditsBalanceAsync ::
  "runtime \<Rightarrow> reserved_status \<Rightarrow> 'w Copyleaks \<Rightarrow> product \<Rightarrow> CopyleaksAuthToken \<Rightarrow> 'w \<Rightarrow> 'w outcome"
where
  "getCreditsBalanceAsync rt rv this product authToken w =
     (case verifyAuthToken rt authToken 5 of
        Inl expired \<Rightarrow> (Inl expired, [], w)
      | Inr _ \<Rightarrow>
          (case request
                  \<lparr>method = ''GET'', url = ''/v3/'' @ product_segment product @ ''/credits'',
                  data = None,
                  headers = [(''Authorization'', ''Bearer '' @ access_token authToken)],
                  maxBodyLength = None\<rparr>
                  (api this) 10 2000 w of
             (Inl error, tr, w') \<Rightarrow> (Inl (AxiosError error), tr, w')
           | (Inr resp, tr, w') \<Rightarrow>
               (if isSuccessStatusCode (status resp) then Inr (Some (response_data resp))
                else if isUnderMaintenanceResponse rv (status resp) then Inl UnderMaintenanceException
                else if isRateLimitResponse rv (status resp) then Inl RateLimitException
                else Inl (CommandException resp), tr, w')))"

text \<open>\<^verbatim>\<open>getUsagesHistoryCsvAsync\<close>, lines 429 to 446.\<close>

definition getUsagesHistoryCsvAsync ::
  "runtime \<Rightarrow> reserved_status \<Rightarrow> 'w Copyleaks \<Rightarrow> product \<Rightarrow> CopyleaksAuthToken \<Rightarrow> string \<Rightarrow> string \<Rightarrow> 'w \<Rightarrow> 'w outcome"
where
  "getUsagesHistoryCsvAsync rt rv this product authToken startDate endDate w =
     (case verifyAuthToken rt authToken 5 of
        Inl expired \<Rightarrow> (Inl expired, [], w)
      | Inr _ \<Rightarrow>
          (case request
                  \<lparr>method = ''GET'', url = ''/v3/'' @ product_segment product @ ''/usages/history?start='' @ startDate @ ''&end='' @ endDate,
                  data = None,
                  headers = [(''Authorization'', ''Bearer '' @ access_token authToken)],
                  maxBodyLength = None\<rparr>
                  (api this) 10 2000 w of
             (Inl error, tr, w') \<Rightarrow> (Inl (AxiosError error), tr, w')
           | (Inr resp, tr, w') \<Rightarrow>
               (if isSuccessStatusCode (status resp) then Inr (Some (response_data resp))
                else if isUnderMaintenanceResponse rv (status resp) then Inl UnderMaintenanceException
                else if isRateLimitResponse rv (status resp) then Inl RateLimitException
                else Inl (CommandException resp), tr, w')))"

text \<open>\<^verbatim>\<open>getReleaseNotesAsync\<close>, lines 460 to 474.\<close>

definition getReleaseNotesAsync ::
  "runtime \<Rightarrow> reserved_status \<Rightarrow> 'w Copyleaks \<Rightarrow> 'w \<Rightarrow> 'w outcome"
where
  "getReleaseNotesAsync rt rv this w =
     (case request
             \<lparr>method = ''GET'', url = ''/v3/release-logs.json'',
                  data = None,
                  headers = [],
                  maxBodyLength = None\<rparr>
             (api this) 10 2000 w of
        (Inl error, tr, w') \<Rightarrow> (Inl (AxiosError error), tr, w')
      | (Inr resp, tr, w') \<Rightarrow>
          (if isSuccessStatusCode (status resp) then Inr (Some (response_data resp))
           else if isUnderMaintenanceResponse rv (status resp) then Inl UnderMaintenanceException
           else if isRateLimitResponse rv (status resp) then Inl RateLimitException
           else Inl (CommandException resp), tr, w'))"

text \<open>\<^verbatim>\<open>getSupportedFileTypesAsync\<close>, lines 488 to 502.\<close>

definition getSupportedFileTypesAsync ::
  "runtime \<Rightarrow> reserved_status \<Rightarrow> 'w Copyleaks \<Rightarrow> 'w \<Rightarrow> 'w outcome"
where
  "getSupportedFileTypesAsync rt rv this w =
     (case request
             \<lparr>method = ''GET'', url = ''/v3/miscellaneous/supported-file-types'',
                  data = None,
                  headers = [],
                  maxBodyLength = None\<rparr>
             (api this) 10 2000 w of
        (Inl error, tr, w') \<Rightarrow> (Inl (AxiosError error), tr, w')
      | (Inr resp, tr, w') \<Rightarrow>
          (if isSuccessStatusCode (status resp) then Inr (Some (response_data resp))
           else if isUnderMaintenanceResponse rv (status resp) then Inl UnderMaintenanceException
           else if isRateLimitResponse rv (status resp) then Inl RateLimitException
           else Inl (CommandException resp), tr, w'))"

text \<open>\<^verbatim>\<open>getOCRSupportedLanguagesAsync\<close>, lines 516 to 530.\<close>

definition getOCRSupportedLanguagesAsync ::
  "runtime \<Rightarrow> reserved_status \<Rightarrow> 'w Copyleaks \<Rightarrow> 'w \<Rightarrow> 'w outcome"
where
  "getOCRSupportedLanguagesAsync rt rv this w =
     (case request
             \<lparr>method = ''GET'', url = ''/v3/miscellaneous/ocr-languages-list'',
                  data = None,
                  headers = [],
                  maxBodyLength = None\<rparr>
             (api this) 10 2000 w of
        (Inl error, tr, w') \<Rightarrow> (Inl (AxiosError error), tr, w')
      | (Inr resp, tr, w') \<Rightarrow>
          (if isSuccessStatusCode (status resp) then Inr (Some (response_data resp))
           else if isUnderMaintenanceResponse rv (status resp) then Inl UnderMaintenanceException
           else if isRateLimitResponse rv (status resp) then Inl RateLimitException
           else Inl (CommandException resp), tr, w'))"

section \<open>The constructor\<close>

text \<open>
  Lines 39 to 55 build both instances with \<^verbatim>\<open>axios.create\<close> and set nothing but
  \<^verbatim>\<open>baseURL\<close> and two headers. An instance built this way keeps the default
  \<^verbatim>\<open>validateStatus\<close> of axios: an answer with a status from 200 to 299 is returned, an
  answer with any other status is raised as an error that carries the answer as its
  \<^verbatim>\<open>response\<close> (with the code \<^verbatim>\<open>ERR_BAD_REQUEST\<close> for 4xx and \<^verbatim>\<open>ERR_BAD_RESPONSE\<close> for
  5xx), and a call that gets no answer is raised as an error without a response, with the
  code of the failure. The servers behind the two base addresses are parameters: given a
  descriptor, a server answers or fails to.
\<close>

datatype answer = Answered axios_response | No_answer "string option"

type_synonym 'w server = "config \<Rightarrow> 'w \<Rightarrow> answer \<times> 'w"

definition response_error_code :: "int \<Rightarrow> string option" where
  "response_error_code s =
     (if 400 \<le> s \<and> s < 500 then Some ''ERR_BAD_REQUEST''
      else if 500 \<le> s \<and> s < 600 then Some ''ERR_BAD_RESPONSE''
      else None)"

definition axios_create :: "'w server \<Rightarrow> 'w requester" where
  "axios_create server config w =
     (case server config w of
        (Answered r, w') \<Rightarrow>
          if 200 \<le> status r \<and> status r < 300 then (Inr r, w')
          else (Inl \<lparr>response = Some r, code = response_error_code (status r)\<rparr>, w')
      | (No_answer c, w') \<Rightarrow> (Inl \<lparr>response = None, code = c\<rparr>, w'))"

definition Copyleaks_constructor :: "'w server \<Rightarrow> 'w server \<Rightarrow> 'w Copyleaks" where
  "Copyleaks_constructor api_server identity_server =
     \<lparr>api = axios_create api_server, accountApi = axios_create identity_server\<rparr>"

section \<open>Calls of the public interface\<close>

text \<open>
  One constructor for each public method of the class with its arguments, and the
  dispatch of a call to the method, so that a statement can range over every operation.
\<close>

datatype call =
    LoginAsync string string
  | SubmitFileAsync product CopyleaksAuthToken string model
  | SubmitFileOcrAsync product CopyleaksAuthToken string model
  | SubmitUrlAsync product CopyleaksAuthToken string model
  | ExportAsync CopyleaksAuthToken string string model
  | StartAsync product CopyleaksAuthToken model
  | DeleteAsync product CopyleaksAuthToken model
  | ResendWebhookAsync product CopyleaksAuthToken string
  | GetCreditsBalanceAsync product CopyleaksAuthToken
  | GetUsagesHistoryCsvAsync product CopyleaksAuthToken string string
  | GetReleaseNotesAsync
  | GetSupportedFileTypesAsync
  | GetOCRSupportedLanguagesAsync

fun invoke :: "runtime \<Rightarrow> reserved_status \<Rightarrow> 'w Copyleaks \<Rightarrow> call \<Rightarrow> 'w \<Rightarrow> 'w outcome" where
  "invoke rt rv this (LoginAsync email key) w = loginAsync rt rv this email key w"
| "invoke rt rv this (SubmitFileAsync p t scanId m) w = submitFileAsync rt rv this p t scanId m w"
| "invoke rt rv this (SubmitFileOcrAsync p t scanId m) w = submitFileOcrAsync rt rv this p t scanId m w"
| "invoke rt rv this (SubmitUrlAsync p t scanId m) w = submitUrlAsync rt rv this p t scanId m w"
| "invoke rt rv this (ExportAsync t scanId exportId m) w = exportAsync rt rv this t scanId exportId m w"
| "invoke rt rv this (StartAsync p t m) w = startAsync rt rv this p t m w"
| "invoke rt rv this (DeleteAsync p t m) w = deleteAsync rt rv this p t m w"
| "invoke rt rv this (ResendWebhookAsync p t scanId) w = resendWebhookAsync rt rv this p t scanId w"
| "invoke rt rv this (GetCreditsBalanceAsync p t) w = getCreditsBalanceAsync rt rv this p t w"
| "invoke rt rv this (GetUsagesHistoryCsvAsync p t startDate endDate) w =
     getUsagesHistoryCsvAsync rt rv this p t startDate endDate w"
| "invoke rt rv this GetReleaseNotesAsync w = getReleaseNotesAsync rt rv this w"
| "invoke rt rv this GetSupportedFileTypesAsync w = getSupportedFileTypesAsync rt rv this w"
| "invoke rt rv this GetOCRSupportedLanguagesAsync w = getOCRSupportedLanguagesAsync rt rv this w"

text \<open>
  What a statement about every operation needs to name: the credential an operation is
  given (none for the four operations that take no token), the descriptor it builds, the
  axios instance it sends through, whether it tests \<^verbatim>\<open>isRateLimitResponse\<close>, what it
  returns on success, and what it throws when \<^verbatim>\<open>request\<close> throws. These are readings of
  the definitions above; the theorems below tie them to \<open>invoke\<close>.
\<close>

fun credential :: "call \<Rightarrow> CopyleaksAuthToken option" where
  "credential (LoginAsync email key) = None"
| "credential (SubmitFileAsync p t scanId m) = Some t"
| "credential (SubmitFileOcrAsync p t scanId m) = Some t"
| "credential (SubmitUrlAsync p t scanId m) = Some t"
| "credential (ExportAsync t scanId exportId m) = Some t"
| "credential (StartAsync p t m) = Some t"
| "credential (DeleteAsync p t m) = Some t"
| "credential (ResendWebhookAsync p t scanId) = Some t"
| "credential (GetCreditsBalanceAsync p t) = Some t"
| "credential (GetUsagesHistoryCsvAsync p t startDate endDate) = Some t"
| "credential GetReleaseNotesAsync = None"
| "credential GetSupportedFileTypesAsync = None"
| "credential GetOCRSupportedLanguagesAsync = None"

definition bearer :: "CopyleaksAuthToken \<Rightarrow> (string \<times> string) list" where
  "bearer t = [(''Authorization'', ''Bearer '' @ access_token t)]"

fun descriptor :: "call \<Rightarrow> config" where
  "descriptor (LoginAsync email key) =
     \<lparr>method = ''POST'', url = ''/v3/account/login/api'', data = Some (Credentials email key),
      headers = [], maxBodyLength = None\<rparr>"
| "descriptor (SubmitFileAsync p t scanId m) =
     \<lparr>method = ''PUT'', url = ''/v3/'' @ product_segment p @ ''/submit/file/'' @ scanId,
      data = Some (Model m), headers = bearer t, maxBodyLength = Some Infinity\<rparr>"
| "descriptor (SubmitFileOcrAsync p t scanId m) =
     \<lparr>method = ''PUT'', url = ''/v3/'' @ product_segment p @ ''/submit/ocr/'' @ scanId,
      data = Some (Model m), headers = bearer t, maxBodyLength = Some Infinity\<rparr>"
| "descriptor (SubmitUrlAsync p t scanId m) =
     \<lparr>method = ''PUT'', url = ''/v3/'' @ product_segment p @ ''/submit/url/'' @ scanId,
      data = Some (Model m), headers = bearer t, maxBodyLength = Some Infinity\<rparr>"
| "descriptor (ExportAsync t scanId exportId m) =
     \<lparr>method = ''POST'', url = ''/v3/downloads/'' @ scanId @ ''/export/'' @ exportId,
      data = Some (Model m), headers = bearer t, maxBodyLength = Some Infinity\<rparr>"
| "descriptor (StartAsync p t m) =
     \<lparr>method = ''PATCH'', url = ''/v3/'' @ product_segment p @ ''/start'',
      data = Some (Model m), headers = bearer t, maxBodyLength = Some Infinity\<rparr>"
| "descriptor (DeleteAsync p t m) =
     \<lparr>method = ''PATCH'', url = ''/v3.1/'' @ product_segment p @ ''/delete'',
      data = Some (Model m), headers = bearer t, maxBodyLength = Some Infinity\<rparr>"
| "descriptor (ResendWebhookAsync p t scanId) =
     \<lparr>method = ''POST'', url = ''/v3/'' @ product_segment p @ ''/scans/'' @ scanId @ ''/webhooks/resend'',
      data = Some Null, headers = bearer t, maxBodyLength = None\<rparr>"
| "descriptor (GetCreditsBalanceAsync p t) =
     \<lparr>method = ''GET'', url = ''/v3/'' @ product_segment p @ ''/credits'',
      data = None, headers = bearer t, maxBodyLength = None\<rparr>"
| "descriptor (GetUsagesHistoryCsvAsync p t startDate endDate) =
     \<lparr>method = ''GET'',
      url = ''/v3/'' @ product_segment p @ ''/usages/history?start='' @ startDate @ ''&end='' @ endDate,
      data = None, headers = bearer t, maxBodyLength = None\<rparr>"
| "descriptor GetReleaseNotesAsync =
     \<lparr>method = ''GET'', url = ''/v3/release-logs.json'', data = None, headers = [],
      maxBodyLength = None\<rparr>"
| "descriptor GetSupportedFileTypesAsync =
     \<lparr>method = ''GET'', url = ''/v3/miscellaneous/supported-file-types'', data = None,
      headers = [], maxBodyLength = None\<rparr>"
| "descriptor GetOCRSupportedLanguagesAsync =
     \<lparr>method = ''GET'', url = ''/v3/miscellaneous/ocr-languages-list'', data = None,
      headers = [], maxBodyLength = None\<rparr>"

fun instance_of :: "'w Copyleaks \<Rightarrow> call \<Rightarrow> 'w requester" where
  "instance_of this (LoginAsync email key) = accountApi this"
| "instance_of this _ = api this"

fun tests_rate_limit :: "call \<Rightarrow> bool" where
  "tests_rate_limit (DeleteAsync p t m) = True"
| "tests_rate_limit (GetCreditsBalanceAsync p t) = True"
| "tests_rate_limit (GetUsagesHistoryCsvAsync p t startDate endDate) = True"
| "tests_rate_limit GetReleaseNotesAsync = True"
| "tests_rate_limit GetSupportedFileTypesAsync = True"
| "tests_rate_limit GetOCRSupportedLanguagesAsync = True"
| "tests_rate_limit _ = False"

fun returned :: "call \<Rightarrow> axios_response \<Rightarrow> string option" where
  "returned (SubmitFileAsync p t scanId m) r = None"
| "returned (SubmitFileOcrAsync p t scanId m) r = None"
| "returned (SubmitUrlAsync p t scanId m) r = None"
| "returned (ExportAsync t scanId exportId m) r = None"
| "returned (DeleteAsync p t m) r = None"
| "returned (ResendWebhookAsync p t scanId) r = None"
| "returned _ r = Some (response_data r)"

fun thrown :: "call \<Rightarrow> axios_error \<Rightarrow> exception" where
  "thrown (SubmitFileAsync p t scanId m) error =
     Error (''Failed to submit file to Copyleaks API for scan with ID '' @ [CHR 0x27] @ scanId
              @ [CHR 0x27] @ ''.'') (AxiosError error)"
| "thrown _ error = AxiosError error"

section \<open>Readings used by the statements\<close>

text \<open>
  The state of the world after \<open>k\<close> transport calls with the same descriptor; the expected
  order of transport calls and delays for \<open>n\<close> retries, the delay before the retry number
  \<open>k + 1\<close> being \<open>backoff * 2 ^ k\<close>; and the part of a trace made of transport calls and
  delays.
\<close>

definition world_after :: "'w requester \<Rightarrow> config \<Rightarrow> nat \<Rightarrow> 'w \<Rightarrow> 'w" where
  "world_after requester config k w = ((\<lambda>w. snd (requester config w)) ^^ k) w"

definition schedule :: "config \<Rightarrow> int \<Rightarrow> nat \<Rightarrow> event list" where
  "schedule config backoff n =
     Requested config # concat (map (\<lambda>k. [Timeout (backoff * 2 ^ k), Requested config]) [0..<n])"

fun timing :: "event list \<Rightarrow> event list" where
  "timing [] = []"
| "timing (Requested c # es) = Requested c # timing es"
| "timing (Timeout d # es) = Timeout d # timing es"
| "timing (_ # es) = timing es"

text \<open>
  A transport call that raises an error the executor's test of line 160 accepts for a retry.
\<close>

definition raises_retryable :: "'w requester \<Rightarrow> config \<Rightarrow> 'w \<Rightarrow> bool" where
  "raises_retryable requester config w =
     (case fst (requester config w) of Inl error \<Rightarrow> retryable error | Inr resp \<Rightarrow> False)"

text \<open>
  An operation is admitted when it takes no token or when the guard, called with the
  default margin as every operation calls it, returns normally.
\<close>

definition admitted :: "runtime \<Rightarrow> call \<Rightarrow> bool" where
  "admitted rt c =
     (case credential c of None \<Rightarrow> True | Some t \<Rightarrow> verifyAuthToken rt t 5 = Inr ())"

section \<open>Concrete inputs\<close>

text \<open>
  Errors an axios instance raises: a 502 answer, a 404 answer, and a connection that timed
  out before any answer arrived. Answers of a server: a plain 200, and the under-maintenance
  status of \<open>reserved_example\<close>. The spec names 512 as the under-maintenance value and
  leaves the rate-limit value open; 513 stands for it here (no statement below depends on
  the choice).
\<close>

definition bad_gateway :: axios_error where
  "bad_gateway =
     \<lparr>response = Some \<lparr>status = 502, response_headers = [], response_data = ''Bad Gateway''\<rparr>,
      code = Some ''ERR_BAD_RESPONSE''\<rparr>"

definition not_found :: axios_error where
  "not_found =
     \<lparr>response = Some \<lparr>status = 404, response_headers = [], response_data = ''Not Found''\<rparr>,
      code = Some ''ERR_BAD_REQUEST''\<rparr>"

definition timed_out :: axios_error where
  "timed_out = \<lparr>response = None, code = Some ''ETIMEDOUT''\<rparr>"

definition reserved_example :: reserved_status where
  "reserved_example = \<lparr>under_maintenance = 512, rate_limit = 513\<rparr>"

definition maintenance_response :: axios_response where
  "maintenance_response =
     \<lparr>status = 512, response_headers = [], response_data = ''maintenance''\<rparr>"

definition ok_response :: axios_response where
  "ok_response = \<lparr>status = 200, response_headers = [], response_data = ''ok''\<rparr>"

text \<open>
  Transports whose world is the number of calls received so far: one raises the same
  error on every call, one returns the same response on every call, one raises on the first
  \<open>n\<close> calls and returns from then on. A client sends through the same transport on both
  of its instances. Servers, with the same world: one gives the same answer to every call,
  one never answers and fails every call with the same code.
\<close>

definition always_raises :: "axios_error \<Rightarrow> nat requester" where
  "always_raises error config calls = (Inl error, Suc calls)"

definition always_returns :: "axios_response \<Rightarrow> nat requester" where
  "always_returns resp config calls = (Inr resp, Suc calls)"

definition raises_then_returns :: "nat \<Rightarrow> axios_error \<Rightarrow> axios_response \<Rightarrow> nat requester" where
  "raises_then_returns n error resp config calls =
     (if calls < n then (Inl error, Suc calls) else (Inr resp, Suc calls))"

definition always_answers :: "axios_response \<Rightarrow> nat server" where
  "always_answers resp config calls = (Answered resp, Suc calls)"

definition never_answers :: "string \<Rightarrow> nat server" where
  "never_answers c config calls = (No_answer (Some c), Suc calls)"

definition client :: "nat requester \<Rightarrow> nat Copyleaks" where
  "client requester = \<lparr>api = requester, accountApi = requester\<rparr>"

definition release_notes :: config where
  "release_notes = descriptor GetReleaseNotesAsync"

text \<open>
  Runtimes. The parser knows two instants: 2026-10-25 01:00 UTC and 12:00 UTC of the same
  day. \<open>utc_midday\<close> is a host on UTC at 11:30 UTC, and \<open>utc_three_minutes_before\<close> the same
  host at 11:57 UTC. \<open>fall_back_night\<close> is a host on Copenhagen time at 01:30 UTC of the
  night the zone leaves summer time: until 01:00 UTC the offset is two hours, from then on
  one hour, and a local wall-clock time that occurs twice (02:00 to 03:00) is read with the
  offset before the transition, as ECMAScript prescribes. At 01:30 UTC the local clock shows
  02:30 for the second time.
\<close>

definition iso_table :: "string \<Rightarrow> time_value" where
  "iso_table s =
     (if s = ''2026-10-25T01:00:00.000Z'' then Some 1792890000000
      else if s = ''2026-10-25T12:00:00.000Z'' then Some 1792929600000
      else None)"

definition utc_zone :: "int \<Rightarrow> bool \<Rightarrow> int" where
  "utc_zone t isUTC = 0"

definition copenhagen_autumn_2026 :: "int \<Rightarrow> bool \<Rightarrow> int" where
  "copenhagen_autumn_2026 t isUTC =
     (if isUTC then (if t < 1792890000000 then 7200000 else 3600000)
      else (if t < 1792890000000 + 7200000 then 7200000 else 3600000))"

definition utc_midday :: runtime where
  "utc_midday = \<lparr>Date_now = 1792927800000, LocalTZA = utc_zone, Date_parse = iso_table\<rparr>"

definition utc_three_minutes_before :: runtime where
  "utc_three_minutes_before =
     \<lparr>Date_now = 1792929420000, LocalTZA = utc_zone, Date_parse = iso_table\<rparr>"

definition fall_back_night :: runtime where
  "fall_back_night =
     \<lparr>Date_now = 1792891800000, LocalTZA = copenhagen_autumn_2026, Date_parse = iso_table\<rparr>"

text \<open>
  Tokens: one that expires at 12:00 UTC, one that expired at 01:00 UTC, and one whose
  \<^verbatim>\<open>.expires\<close> is not a date.
\<close>

definition midday_token :: CopyleaksAuthToken where
  "midday_token =
     \<lparr>access_token = ''midday'', expires = ''2026-10-25T12:00:00.000Z''\<rparr>"

definition stale_token :: CopyleaksAuthToken where
  "stale_token =
     \<lparr>access_token = ''stale'', expires = ''2026-10-25T01:00:00.000Z''\<rparr>"

definition undated_token :: CopyleaksAuthToken where
  "undated_token = \<lparr>access_token = ''undated'', expires = ''soon''\<rparr>"


section \<open>The request executor: one step\<close>

lemma request_returns:
  "requester config w = (Inr resp, w') \<Longrightarrow>
   request config requester retries backoff w = (Inr resp, [Requested config], w')"
  by (simp add: request.simps)

lemma request_exhausted:
  "requester config w = (Inl error, w') \<Longrightarrow> retries < 1 \<Longrightarrow>
   request config requester retries backoff w =
     (Inl error, [Requested config, Log_error (logged_status error) retries backoff], w')"
  by (simp add: request.simps)

lemma request_not_retryable:
  "requester config w = (Inl error, w') \<Longrightarrow> \<not> retryable error \<Longrightarrow>
   request config requester retries backoff w =
     (Inl error, [Requested config, Log_error (logged_status error) retries backoff], w')"
  by (simp add: request.simps)

lemma request_retries:
  "requester config w = (Inl error, w') \<Longrightarrow> retryable error \<Longrightarrow> 1 \<le> retries \<Longrightarrow>
   request config requester retries backoff w =
     (case request config requester (retries - 1) (backoff * 2) w' of
        (r, tr, w'') \<Rightarrow>
          (r, [Requested config, Log_error (logged_status error) retries backoff,
               Log_backoff config, Timeout backoff] @ tr, w''))"
  by (subst request.simps) simp

lemma world_after_Suc:
  "world_after requester config (Suc k) w = world_after requester config k (snd (requester config w))"
  using funpow_swap1 [of "\<lambda>w. snd (requester config w)" k w]
  by (simp add: world_after_def)

lemma upt_shift: "map f [0..<Suc n] = f 0 # map (\<lambda>k. f (Suc k)) [0..<n]"
  by (simp add: upt_conv_Cons map_Suc_upt [symmetric] del: upt_Suc)

lemma schedule_Suc:
  "schedule config backoff (Suc n) =
     Requested config # Timeout backoff # schedule config (backoff * 2) n"
  unfolding schedule_def
  by (simp add: upt_shift [where n = n] mult.assoc del: upt_Suc)


lemma request_cases:
  obtains (returned) resp w' where "requester config w = (Inr resp, w')"
      "request config requester retries backoff w = (Inr resp, [Requested config], w')"
  | (raised) error w' where "requester config w = (Inl error, w')"
      "retries < 1 \<or> \<not> retryable error"
      "request config requester retries backoff w =
         (Inl error, [Requested config, Log_error (logged_status error) retries backoff], w')"
  | (retried) error w' r tr w'' where "requester config w = (Inl error, w')"
      "\<not> retries < 1" "retryable error"
      "request config requester (retries - 1) (backoff * 2) w' = (r, tr, w'')"
      "request config requester retries backoff w =
         (r, [Requested config, Log_error (logged_status error) retries backoff,
              Log_backoff config, Timeout backoff] @ tr, w'')"
proof -
  obtain out w' where o: "requester config w = (out, w')"
    by (cases "requester config w") auto
  show ?thesis
  proof (cases out)
    case (Inr resp)
    then show ?thesis
      using o returned request_returns [where requester = requester and config = config and w = w]
      by simp
  next
    case (Inl error)
    note e = o [unfolded Inl]
    show ?thesis
    proof (cases "retries < 1 \<or> \<not> retryable error")
      case True
      then have "request config requester retries backoff w =
         (Inl error, [Requested config, Log_error (logged_status error) retries backoff], w')"
        using e by (auto simp: request.simps)
      then show ?thesis using raised e True by blast
    next
      case False
      obtain r tr w'' where rec:
        "request config requester (retries - 1) (backoff * 2) w' = (r, tr, w'')"
        by (cases "request config requester (retries - 1) (backoff * 2) w'") auto
      have "request config requester retries backoff w =
          (r, [Requested config, Log_error (logged_status error) retries backoff,
               Log_backoff config, Timeout backoff] @ tr, w'')"
        using e False rec by (subst request.simps) simp
      then show ?thesis using retried e False rec by blast
    qed
  qed
qed

section \<open>The request executor: the retry budget\<close>

text \<open>
  Let the transport raise, on every call, an error that the executor's test of line 160
  accepts for a retry. Then \<^verbatim>\<open>request\<close> with \<open>retries = N\<close> calls the transport exactly
  \<open>N + 1\<close> times; the counter it logs on each failure runs \<open>N, N - 1, ..., 0\<close> and is never
  negative; and it throws exactly what the transport raised on the last call (the call made
  in the world reached after \<open>N\<close> earlier calls), an error of the transport and nothing else.
\<close>

lemma request_exhausts_retry_budget:
  assumes "\<forall>w. \<exists>error w'. requester config w = (Inl error, w') \<and> retryable error"
  shows "case request config requester (int N) backoff w of
           (r, tr, w') \<Rightarrow>
              length (sent tr) = N + 1
            \<and> counters tr = map (\<lambda>k. int N - int k) [0..<N + 1]
            \<and> (\<forall>c \<in> set (counters tr). 0 \<le> c)
            \<and> isl r
            \<and> r = fst (requester config (world_after requester config N w))
            \<and> w' = world_after requester config (N + 1) w"
proof (induction N arbitrary: w backoff)
  case 0
  obtain error w' where e: "requester config w = (Inl error, w')" "retryable error"
    using assms by blast
  have "request config requester (int 0) backoff w =
     (Inl error, [Requested config, Log_error (logged_status error) (int 0) backoff], w')"
    using request_exhausted [where requester = requester and config = config and w = w, OF e(1)]
    by simp
  then show ?case
    using e(1) by (simp add: world_after_def)
next
  case (Suc N)
  obtain error w' where e: "requester config w = (Inl error, w')" "retryable error"
    using assms by blast
  obtain r tr w'' where rec: "request config requester (int N) (backoff * 2) w' = (r, tr, w'')"
    by (cases "request config requester (int N) (backoff * 2) w'") auto
  have step: "request config requester (int (Suc N)) backoff w =
     (r, [Requested config, Log_error (logged_status error) (int (Suc N)) backoff,
          Log_backoff config, Timeout backoff] @ tr, w'')"
    using request_retries [where requester = requester and config = config and w = w
        and retries = "int (Suc N)" and backoff = backoff, OF e] rec
    by simp
  have ih: "length (sent tr) = N + 1"
    "counters tr = map (\<lambda>k. int N - int k) [0..<N + 1]"
    "\<forall>c \<in> set (counters tr). 0 \<le> c" "isl r"
    "r = fst (requester config (world_after requester config N w'))"
    "w'' = world_after requester config (N + 1) w'"
    using Suc.IH [of w' "backoff * 2", unfolded rec prod.case] by blast+
  have w': "w' = snd (requester config w)" using e by simp
  have cnt: "map (\<lambda>k. int (Suc N) - int k) [0..<Suc (Suc N)]
      = int (Suc N) # map (\<lambda>k. int N - int k) [0..<Suc N]"
    using upt_shift [of "\<lambda>k. int (Suc N) - int k" "Suc N"] by simp
  have a: "length (sent tr) = Suc N" "counters tr = map (\<lambda>k. int N - int k) [0..<Suc N]"
    using ih(1,2) by simp_all
  have w3: "w'' = world_after requester config (Suc (Suc N)) w"
    using ih(6) by (simp add: world_after_Suc [of requester config "Suc N" w] w')
  have r3: "r = fst (requester config (world_after requester config (Suc N) w))"
    using ih(5) by (simp add: world_after_Suc [of requester config N w] w')
  have s1: "length (sent ([Requested config, Log_error (logged_status error) (int (Suc N)) backoff,
          Log_backoff config, Timeout backoff] @ tr)) = Suc N + 1"
    using a(1) by simp
  have s2: "counters ([Requested config, Log_error (logged_status error) (int (Suc N)) backoff,
          Log_backoff config, Timeout backoff] @ tr) = map (\<lambda>k. int (Suc N) - int k) [0..<Suc N + 1]"
    using a(2) cnt by simp
  have s3: "\<forall>c \<in> set (counters ([Requested config, Log_error (logged_status error) (int (Suc N)) backoff,
          Log_backoff config, Timeout backoff] @ tr)). 0 \<le> c"
    using ih(3) by simp
  show ?case
    unfolding step using s1 s2 s3 ih(4) r3 w3 by simp
qed

text \<open>
  The defaults: with \<open>retries = 10\<close> and a transport that answers 502 to every call, eleven
  calls are made, the counter runs from 10 down to 0, and the 502 error is thrown.
\<close>

lemma request_exhausts_retry_budget_at_defaults:
  "(\<forall>w. \<exists>error w'. always_raises bad_gateway release_notes w = (Inl error, w') \<and> retryable error)
   \<and> (case request release_notes (always_raises bad_gateway) 10 2000 0 of
        (r, tr, w') \<Rightarrow>
          length (sent tr) = 11 \<and> counters tr = [10, 9, 8, 7, 6, 5, 4, 3, 2, 1, 0]
          \<and> r = Inl bad_gateway \<and> w' = 11)"
proof -
  have h: "\<forall>w. \<exists>error w'. always_raises bad_gateway release_notes w = (Inl error, w') \<and> retryable error"
    by (simp add: always_raises_def retryable_def bad_gateway_def)
  have w: "world_after (always_raises bad_gateway) release_notes k 0 = k" for k
    by (induction k) (simp_all add: world_after_def always_raises_def)
  have m: "map (\<lambda>k. 10 - int k) [0..<11] = [10, 9, 8, 7, 6, 5, 4, 3, 2, 1, 0]"
    by code_simp
  show ?thesis
    using h m w [of 10] w [of 11]
      request_exhausts_retry_budget [where requester = "always_raises bad_gateway"
        and config = release_notes and N = 10 and backoff = 2000 and w = 0]
    by (simp add: always_raises_def split: prod.splits)
qed

text \<open>
  C1. The claim counts a connection timeout with no response among the retryable errors.
  Against a server that never answers, so that every call fails with \<^verbatim>\<open>ETIMEDOUT\<close> and
  no response, \<^verbatim>\<open>request\<close> with \<open>retries = 10\<close> calls the transport once, not eleven
  times: the test of line 160 is false for an error without a response. The counter is
  logged once, at 10, no delay is asked for, and the timeout error is thrown as it was
  raised.
\<close>

theorem request_timeout_makes_single_attempt:
  "(case request release_notes (axios_create (never_answers ''ETIMEDOUT'')) 10 2000 0 of
      (r, tr, w') \<Rightarrow>
        sent tr = [release_notes] \<and> delays tr = [] \<and> counters tr = [10]
        \<and> r = Inl \<lparr>response = None, code = Some ''ETIMEDOUT''\<rparr> \<and> w' = 1)
   \<and> length [release_notes] \<noteq> 10 + 1"
  by (simp add: request.simps axios_create_def never_answers_def retryable_def logged_status_def)

section \<open>The request executor: which errors are retried\<close>

text \<open>
  What the code does: after a transport error, a delay and a further call follow exactly
  when at least one retry is left and the error passes the test of line 160.
\<close>

lemma request_retried_iff:
  assumes "requester config w = (Inl error, w')"
  shows "(delays (fst (snd (request config requester retries backoff w))) \<noteq> [])
           = (1 \<le> retries \<and> retryable error)"
proof (cases rule: request_cases [of requester config w retries backoff])
  case (returned resp w'')
  then show ?thesis using assms by simp
next
  case (raised error' w'')
  then show ?thesis using assms by auto
next
  case (retried error' w'' r tr w''')
  then show ?thesis using assms by auto
qed

text \<open>
  C2. The claim asks that a connection timeout with no response at all be retried. The test
  of line 160 puts \<^verbatim>\<open>error.code === 'ETIMEDOUT'\<close> under the conjunct
  \<^verbatim>\<open>error.response\<close>, so an error without a response is never retried: with all ten
  retries left, the executor calls the transport once, logs the error, asks for no delay and
  throws.
\<close>

theorem request_timeout_without_response_not_retried:
  "\<not> retryable timed_out
   \<and> request release_notes (always_raises timed_out) 10 2000 0 =
       (Inl timed_out, [Requested release_notes, Log_error None 10 2000], 1)"
  by (simp add: request.simps always_raises_def timed_out_def retryable_def logged_status_def)

text \<open>
  The other half of the claim holds for an error such as a 404 response: one call, no
  delay, the error thrown at once.
\<close>

lemma request_not_found_short_circuit:
  "request release_notes (always_raises not_found) 10 2000 0 =
     (Inl not_found, [Requested release_notes, Log_error (Some 404) 10 2000], 1)"
  by (simp add: request.simps always_raises_def not_found_def retryable_def logged_status_def)

section \<open>The request executor: backoff\<close>

text \<open>
  The shape of every execution of \<^verbatim>\<open>request\<close> started with \<open>backoff\<close>: the transport
  calls and the delays alternate, starting and ending with a call; the delays are
  \<open>backoff\<close>, twice \<open>backoff\<close>, and so on; there is one delay less than there are calls,
  and never more delays than \<open>retries\<close>.
\<close>

lemma request_backoff_shape:
  "case request config requester retries backoff w of
     (r, tr, w') \<Rightarrow>
        timing tr = schedule config backoff (length (delays tr))
      \<and> delays tr = map (\<lambda>k. backoff * 2 ^ k) [0..<length (delays tr)]
      \<and> length (sent tr) = length (delays tr) + 1
      \<and> int (length (delays tr)) \<le> max 0 retries"
proof (induction config requester retries backoff w rule: request.induct)
  case (1 config requester retries backoff w)
  show ?case
  proof (cases rule: request_cases [of requester config w retries backoff])
    case (returned resp w')
    then show ?thesis by (simp add: schedule_def)
  next
    case (raised error w')
    then show ?thesis by (simp add: schedule_def)
  next
    case (retried error w' r tr w'')
    have ih: "timing tr = schedule config (backoff * 2) (length (delays tr))"
      "delays tr = map (\<lambda>k. backoff * 2 * 2 ^ k) [0..<length (delays tr)]"
      "length (sent tr) = length (delays tr) + 1"
      "int (length (delays tr)) \<le> max 0 (retries - 1)"
      using "1.IH" [OF retried(1) [symmetric] refl retried(2,3), unfolded retried(4) prod.case]
      by blast+
    have d: "map (\<lambda>k. backoff * 2 ^ k) [0..<Suc (length (delays tr))]
        = backoff # map (\<lambda>k. backoff * 2 * 2 ^ k) [0..<length (delays tr)]"
      using upt_shift [of "\<lambda>k. backoff * 2 ^ k" "length (delays tr)"] by (simp add: mult.assoc)
    have t: "timing ([Requested config, Log_error (logged_status error) retries backoff,
              Log_backoff config, Timeout backoff] @ tr)
        = schedule config backoff (Suc (length (delays tr)))"
      using ih(1) by (simp add: schedule_Suc)
    have dl: "delays ([Requested config, Log_error (logged_status error) retries backoff,
              Log_backoff config, Timeout backoff] @ tr) = backoff # delays tr"
      by simp
    have sn: "sent ([Requested config, Log_error (logged_status error) retries backoff,
              Log_backoff config, Timeout backoff] @ tr) = config # sent tr"
      by simp
    have b: "int (Suc (length (delays tr))) \<le> max 0 retries"
      using ih(4) retried(2) by simp
    show ?thesis
      unfolding retried(5) prod.case dl sn
      using t [unfolded dl] d ih(2) [symmetric] ih(3) b
      by (simp del: upt_Suc timing.simps)
  qed
qed

text \<open>
  How many retries an execution makes: the number \<open>n\<close> of calls, from the first on, that
  raise an error passing the test of line 160, cut off at the budget \<open>N\<close>. Every execution
  has such a number.
\<close>

lemma retry_count_exists:
  "\<exists>n\<le>N. (\<forall>k<n. raises_retryable requester config (world_after requester config k w))
        \<and> (n = N \<or> \<not> raises_retryable requester config (world_after requester config n w))"
proof (induction N)
  case 0
  then show ?case by simp
next
  case (Suc N)
  then obtain n where n: "n \<le> N"
    "\<forall>k<n. raises_retryable requester config (world_after requester config k w)"
    "n = N \<or> \<not> raises_retryable requester config (world_after requester config n w)"
    by blast
  show ?case
  proof (cases "raises_retryable requester config (world_after requester config n w)")
    case False
    then show ?thesis using n by (intro exI [of _ n]) simp
  next
    case True
    then have "n = N" using n(3) by blast
    then have "\<forall>k<Suc N. raises_retryable requester config (world_after requester config k w)"
      using n(2) True by (auto simp: less_Suc_eq)
    then show ?thesis by (intro exI [of _ "Suc N"]) simp
  qed
qed

text \<open>
  C3. In every execution of \<^verbatim>\<open>request\<close> started with \<open>retries = N\<close> and \<open>backoff\<close>,
  with \<open>n\<close> the number of retries as above (\<open>n = N\<close> when the transport raises such an
  error on every call): exactly \<open>n\<close> delays are waited, no fewer and no more; the delay
  before the retry number \<open>k + 1\<close> (counting from 0) is \<open>backoff * 2 ^ k\<close>, so the first
  retry waits exactly \<open>backoff\<close> and each later one twice the delay before; and the calls
  and delays alternate, \<open>n + 1\<close> calls with a delay between each two. The delay is the value
  handed to \<^verbatim>\<open>setTimeout\<close>.
\<close>

theorem request_backoff_doubles:
  assumes "n \<le> N"
    and "\<forall>k<n. raises_retryable requester config (world_after requester config k w)"
    and "n = N \<or> \<not> raises_retryable requester config (world_after requester config n w)"
  shows "case request config requester (int N) backoff w of
           (r, tr, w') \<Rightarrow>
              timing tr = schedule config backoff n
            \<and> delays tr = map (\<lambda>k. backoff * 2 ^ k) [0..<n]
            \<and> length (sent tr) = n + 1"
  using assms
proof (induction N arbitrary: n w backoff)
  case 0
  then have n: "n = 0" by simp
  show ?case
  proof (cases rule: request_cases [of requester config w "int 0" backoff])
    case (returned resp w')
    then show ?thesis by (simp add: n schedule_def)
  next
    case (raised error w')
    then show ?thesis by (simp add: n schedule_def)
  next
    case (retried error w' r tr w'')
    then show ?thesis by simp
  qed
next
  case (Suc N)
  show ?case
  proof (cases n)
    case 0
    then have stop: "\<not> raises_retryable requester config w"
      using Suc.prems(3) by (simp add: world_after_def)
    show ?thesis
    proof (cases rule: request_cases [of requester config w "int (Suc N)" backoff])
      case (returned resp w')
      then show ?thesis by (simp add: 0 schedule_def)
    next
      case (raised error w')
      then show ?thesis by (simp add: 0 schedule_def)
    next
      case (retried error w' r tr w'')
      then show ?thesis using stop by (simp add: raises_retryable_def)
    qed
  next
    case (Suc m)
    have go: "raises_retryable requester config w"
      using Suc.prems(2) Suc by (auto simp: world_after_def dest: spec [of _ 0])
    show ?thesis
    proof (cases rule: request_cases [of requester config w "int (Suc N)" backoff])
      case (returned resp w')
      then show ?thesis using go by (simp add: raises_retryable_def)
    next
      case (raised error w')
      then show ?thesis using go by (simp add: raises_retryable_def)
    next
      case (retried error w' r tr w'')
      have w': "w' = snd (requester config w)" using retried(1) by simp
      have shift: "world_after requester config k w' = world_after requester config (Suc k) w" for k
        by (simp add: world_after_Suc w')
      have p1: "m \<le> N" using Suc.prems(1) Suc by simp
      have p2: "\<forall>k<m. raises_retryable requester config (world_after requester config k w')"
        using Suc.prems(2) Suc by (simp add: shift)
      have p3: "m = N \<or> \<not> raises_retryable requester config (world_after requester config m w')"
        using Suc.prems(3) Suc by (simp add: shift)
      have rec: "request config requester (int N) (backoff * 2) w' = (r, tr, w'')"
        using retried(4) by simp
      have ih: "timing tr = schedule config (backoff * 2) m"
        "delays tr = map (\<lambda>k. backoff * 2 * 2 ^ k) [0..<m]"
        "length (sent tr) = m + 1"
        using Suc.IH [OF p1 p2 p3, of "backoff * 2", unfolded rec prod.case] by blast+
      have d: "map (\<lambda>k. backoff * 2 ^ k) [0..<Suc m]
          = backoff # map (\<lambda>k. backoff * 2 * 2 ^ k) [0..<m]"
        using upt_shift [of "\<lambda>k. backoff * 2 ^ k" m] by (simp add: mult.assoc)
      have t: "timing ([Requested config, Log_error (logged_status error) (int (Suc N)) backoff,
                Log_backoff config, Timeout backoff] @ tr)
          = schedule config backoff (Suc m)"
        using ih(1) by (simp add: schedule_Suc)
      have dl: "delays ([Requested config, Log_error (logged_status error) (int (Suc N)) backoff,
                Log_backoff config, Timeout backoff] @ tr) = map (\<lambda>k. backoff * 2 ^ k) [0..<Suc m]"
        unfolding d using ih(2) by simp
      have sn: "length (sent ([Requested config, Log_error (logged_status error) (int (Suc N)) backoff,
                Log_backoff config, Timeout backoff] @ tr)) = Suc m + 1"
        using ih(3) by simp
      show ?thesis
        unfolding retried(5) prod.case Suc using t dl sn by blast
    qed
  qed
qed

text \<open>
  The defaults against a transport that raises 502 on every call: ten delays, from 2000
  doubling up to 1024000, and eleven calls.
\<close>

theorem request_backoff_doubles_witness:
  "(10::nat) \<le> 10
   \<and> (\<forall>w. raises_retryable (always_raises bad_gateway) release_notes w)
   \<and> (case request release_notes (always_raises bad_gateway) 10 2000 0 of
        (r, tr, w') \<Rightarrow>
          delays tr = [2000, 4000, 8000, 16000, 32000, 64000, 128000, 256000, 512000, 1024000]
          \<and> timing tr = schedule release_notes 2000 10
          \<and> length (sent tr) = 11)"
proof -
  have p1: "(10::nat) \<le> 10"
    by simp
  have r: "raises_retryable (always_raises bad_gateway) release_notes w" for w
    by (simp add: raises_retryable_def always_raises_def retryable_def bad_gateway_def)
  have p2: "\<forall>k<10. raises_retryable (always_raises bad_gateway) release_notes
                 (world_after (always_raises bad_gateway) release_notes k 0)"
    using r by simp
  have p3: "(10::nat) = 10 \<or> \<not> raises_retryable (always_raises bad_gateway) release_notes
                 (world_after (always_raises bad_gateway) release_notes 10 0)"
    by simp
  have m: "map (\<lambda>k. 2000 * 2 ^ k) [0..<10]
      = [2000, 4000, 8000, 16000, 32000, 64000, 128000, 256000, 512000, 1024000 :: int]"
    by code_simp
  show ?thesis
    using p1 r m
      request_backoff_doubles [where requester = "always_raises bad_gateway"
        and config = release_notes and n = 10 and N = 10 and w = 0 and backoff = 2000,
        OF p1 p2 p3]
    by (simp split: prod.splits)
qed

section \<open>The request executor: a response ends the execution\<close>

text \<open>
  C6. When the transport returns a response without raising, whatever its status,
  \<^verbatim>\<open>request\<close> returns that response unchanged after this one call: the trace holds the
  call and nothing else (no log line, no delay, no further call), whatever \<open>retries\<close> and
  \<open>backoff\<close> are. A retry is itself a call of \<^verbatim>\<open>request\<close>, so the same holds at every
  attempt.
\<close>

theorem request_returns_response_at_once:
  assumes "requester config w = (Inr resp, w')"
  shows "request config requester retries backoff w = (Inr resp, [Requested config], w')"
  using assms by (rule request_returns)

text \<open>A 200 response: returned as it is after one call.\<close>

theorem request_returns_response_at_once_witness:
  "always_returns ok_response release_notes 0 = (Inr ok_response, 1)
   \<and> request release_notes (always_returns ok_response) 10 2000 0 =
       (Inr ok_response, [Requested release_notes], 1)"
proof -
  have h: "always_returns ok_response release_notes 0 = (Inr ok_response, 1)"
    by (simp add: always_returns_def)
  show ?thesis
    using h request_returns_response_at_once [where requester = "always_returns ok_response"
        and config = release_notes and w = 0 and retries = 10 and backoff = 2000, OF h]
    by simp
qed

section \<open>The request executor: the descriptor\<close>

text \<open>
  C9. Every transport call of an execution of \<^verbatim>\<open>request\<close> is made with the descriptor
  the execution was given: the descriptors sent are so many copies of \<open>config\<close>, and there is
  at least one.
\<close>

theorem request_replays_descriptor:
  "case request config requester retries backoff w of
     (r, tr, w') \<Rightarrow> sent tr = replicate (length (sent tr)) config \<and> sent tr \<noteq> []"
proof (induction config requester retries backoff w rule: request.induct)
  case (1 config requester retries backoff w)
  show ?case
  proof (cases rule: request_cases [of requester config w retries backoff])
    case (returned resp w')
    then show ?thesis by simp
  next
    case (raised error w')
    then show ?thesis by simp
  next
    case (retried error w' r tr w'')
    have ih: "sent tr = replicate (length (sent tr)) config"
      using "1.IH" [OF retried(1) [symmetric] refl retried(2,3), unfolded retried(4) prod.case]
      by blast
    show ?thesis
      unfolding retried(5) using ih by simp
  qed
qed

section \<open>The token guard: the adjusted now\<close>

text \<open>
  Putting the civil fields of a local time back together, with \<open>m\<close> added to the minutes,
  moves the time by \<open>m\<close> minutes.
\<close>

lemma civil_fields:
  "MakeDate (Day t) (MakeTime (HourFromTime t) (MinFromTime t + m) (SecFromTime t) (msFromTime t))
     = t + m * 60000"
proof -
  have a: "t mod 60000 = 1000 * (t div 1000 mod 60) + t mod 1000"
    using zmod_zmult2_eq [of 60 t 1000] by simp
  have b: "t mod 3600000 = 60000 * (t div 60000 mod 60) + t mod 60000"
    using zmod_zmult2_eq [of 60 t 60000] by simp
  have c: "t mod 86400000 = 3600000 * (t div 3600000 mod 24) + t mod 3600000"
    using zmod_zmult2_eq [of 24 t 3600000] by simp
  have d: "t = 86400000 * (t div 86400000) + t mod 86400000"
    by simp
  show ?thesis
    unfolding MakeDate_def MakeTime_def Day_def HourFromTime_def MinFromTime_def SecFromTime_def
      msFromTime_def msPerDay_def msPerHour_def msPerMinute_def msPerSecond_def
    using a b c d by (simp add: algebra_simps)
qed

text \<open>
  On a host whose zone keeps one offset, \<^verbatim>\<open>date\<close> is the clock plus the margin, and the
  guard throws exactly when the expiry is at or before it. (The two bounds say that the
  instants are ones a \<^verbatim>\<open>Date\<close> can hold.)
\<close>

lemma verifyAuthToken_date_steady:
  assumes "\<forall>t b. LocalTZA rt t b = off" and "\<bar>Date_now rt\<bar> \<le> 8640000000000000"
  shows "verifyAuthToken_date rt m = TimeClip (Date_now rt + m * 60000)"
proof -
  have "UTC rt (MakeDate (Day (LocalTime rt t))
          (MakeTime (HourFromTime (LocalTime rt t)) (MinFromTime (LocalTime rt t) + m)
             (SecFromTime (LocalTime rt t)) (msFromTime (LocalTime rt t)))) = t + m * 60000" for t
    unfolding civil_fields using assms(1) by (simp add: UTC_def LocalTime_def)
  then show ?thesis
    using assms(2)
    by (simp add: verifyAuthToken_date_def setMinutes_def getMinutes_def TimeClip_def Let_def)
qed

lemma verifyAuthToken_steady:
  assumes "\<forall>t b. LocalTZA rt t b = off" and "\<bar>Date_now rt\<bar> \<le> 8640000000000000"
    and "\<bar>Date_now rt + m * 60000\<bar> \<le> 8640000000000000"
    and "verifyAuthToken_expiresDate rt authToken = Some e"
  shows "verifyAuthToken rt authToken m =
           (if Date_now rt + m * 60000 < e then Inr () else Inl AuthExipredException)"
  using assms(3,4) verifyAuthToken_date_steady [OF assms(1,2), of m]
  by (simp add: verifyAuthToken_def TimeClip_def)

text \<open>
  C4. The claim asks for \<^verbatim>\<open>AuthExipredException\<close> whenever the expiry is at or before the
  clock plus the margin. The guard adds the margin with
  \<^verbatim>\<open>date.setMinutes(date.getMinutes() + timeUntilExpiry)\<close>, on the fields of the local
  wall-clock time. In the hour a zone repeats when it leaves summer time this moves
  \<^verbatim>\<open>date\<close> back: on the Copenhagen host at 01:30 UTC the local clock shows 02:30, the
  fields are set to 02:35, which is read as the first 02:35, that is 00:35 UTC. A token that
  expired at 01:00 UTC, half an hour before the call, is at or before the clock plus five
  minutes, yet the guard returns normally.
\<close>

theorem verifyAuthToken_fall_back_hour:
  "verifyAuthToken_expiresDate fall_back_night stale_token = Some 1792890000000
   \<and> 1792890000000 \<le> Date_now fall_back_night + 5 * 60000
   \<and> verifyAuthToken_date fall_back_night 5 = Some 1792888500000
   \<and> verifyAuthToken fall_back_night stale_token 5 = Inr ()"
proof -
  have e: "verifyAuthToken_expiresDate fall_back_night stale_token = Some 1792890000000"
    by code_simp
  have n: "1792890000000 \<le> Date_now fall_back_night + 5 * 60000"
    by (simp add: fall_back_night_def)
  have d: "verifyAuthToken_date fall_back_night 5 = Some 1792888500000"
    by code_simp
  have v: "verifyAuthToken fall_back_night stale_token 5 = Inr ()"
    by code_simp
  show ?thesis
    using e n d v by blast
qed

text \<open>
  C10. A token whose \<^verbatim>\<open>.expires\<close> does not parse to a time value passes the guard,
  whatever the margin, the clock and the zone: the comparison with NaN is false.
\<close>

theorem verifyAuthToken_unparsed_expiry:
  assumes "Date_parse rt (expires authToken) = None"
  shows "verifyAuthToken rt authToken timeUntilExpiry = Inr ()"
  using assms by (simp add: verifyAuthToken_def verifyAuthToken_expiresDate_def)

theorem verifyAuthToken_unparsed_expiry_witness:
  "Date_parse utc_midday (expires undated_token) = None
   \<and> verifyAuthToken utc_midday undated_token 5 = Inr ()"
proof -
  have h: "Date_parse utc_midday (expires undated_token) = None"
    by (simp add: utc_midday_def undated_token_def iso_table_def)
  show ?thesis
    using h verifyAuthToken_unparsed_expiry [OF h, of 5] by simp
qed

section \<open>The public operations: guard, request, classification\<close>

lemmas operation_defs =
  loginAsync_def submitFileAsync_def submitFileOcrAsync_def submitUrlAsync_def exportAsync_def
  startAsync_def deleteAsync_def resendWebhookAsync_def getCreditsBalanceAsync_def
  getUsagesHistoryCsvAsync_def getReleaseNotesAsync_def getSupportedFileTypesAsync_def
  getOCRSupportedLanguagesAsync_def

text \<open>
  Every operation that takes a token calls the guard first and stops there if it throws;
  an admitted operation calls \<^verbatim>\<open>request\<close> once, with its descriptor, its axios instance
  and the defaults 10 and 2000, and then tests the status of the response.
\<close>

lemma invoke_expired:
  "credential c = Some t \<Longrightarrow> verifyAuthToken rt t 5 = Inl x \<Longrightarrow>
   invoke rt rv this c w = (Inl x, [], w)"
  by (cases c) (simp_all add: operation_defs)

lemma invoke_admitted:
  assumes "admitted rt c"
  shows "invoke rt rv this c w =
     (case request (descriptor c) (instance_of this c) 10 2000 w of
        (Inl error, tr, w') \<Rightarrow> (Inl (thrown c error), tr, w')
      | (Inr resp, tr, w') \<Rightarrow>
          (if isSuccessStatusCode (status resp) then Inr (returned c resp)
           else if isUnderMaintenanceResponse rv (status resp) then Inl UnderMaintenanceException
           else if tests_rate_limit c \<and> isRateLimitResponse rv (status resp)
             then Inl RateLimitException
           else Inl (CommandException resp), tr, w'))"
  using assms
  by (cases c)
     (simp_all add: operation_defs admitted_def bearer_def split: prod.splits sum.splits)

section \<open>The public operations: the guard comes first\<close>

text \<open>
  An operation that takes a token, called with a token whose expiry is at or before the
  guard's adjusted now (\<^verbatim>\<open>date\<close> of \<^verbatim>\<open>verifyAuthToken\<close> with the default margin of
  five minutes), throws \<^verbatim>\<open>AuthExipredException\<close> with an empty trace and the world
  untouched: the transport is not called. By \<open>verifyAuthToken_date_steady\<close> the adjusted
  now is the clock plus five minutes on every host whose zone keeps one offset.
\<close>

lemma invoke_expired_before_transport:
  assumes "credential c = Some t"
    and "verifyAuthToken_expiresDate rt t = Some e"
    and "verifyAuthToken_date rt 5 = Some d"
    and "e \<le> d"
  shows "invoke rt rv this c w = (Inl AuthExipredException, [], w)"
proof -
  have "verifyAuthToken rt t 5 = Inl AuthExipredException"
    using assms(2-4) by (simp add: verifyAuthToken_def)
  then show ?thesis
    using assms(1) by (rule invoke_expired [rotated])
qed

text \<open>
  A token that expires at 12:00 UTC, used at 11:57 UTC on a host on UTC: the adjusted now is
  12:02 UTC, and \<^verbatim>\<open>deleteAsync\<close> throws before any transport call.
\<close>

lemma invoke_expired_before_transport_on_utc:
  "credential (DeleteAsync education midday_token ''{}'') = Some midday_token
   \<and> verifyAuthToken_expiresDate utc_three_minutes_before midday_token = Some 1792929600000
   \<and> verifyAuthToken_date utc_three_minutes_before 5 = Some 1792929720000
   \<and> (1792929600000 :: int) \<le> 1792929720000
   \<and> invoke utc_three_minutes_before reserved_example (client (always_returns ok_response))
        (DeleteAsync education midday_token ''{}'') 0 = (Inl AuthExipredException, [], 0)"
proof -
  have c: "credential (DeleteAsync education midday_token ''{}'') = Some midday_token"
    by simp
  have e: "verifyAuthToken_expiresDate utc_three_minutes_before midday_token = Some 1792929600000"
    by code_simp
  have d: "verifyAuthToken_date utc_three_minutes_before 5 = Some 1792929720000"
    by code_simp
  have l: "(1792929600000 :: int) \<le> 1792929720000"
    by simp
  show ?thesis
    using c e d l
      invoke_expired_before_transport [OF c e d l, of reserved_example
        "client (always_returns ok_response)" 0]
    by blast
qed

text \<open>
  C7. The claim asks that an operation called with a token whose expiry is at or before the
  clock plus five minutes send nothing. On the Copenhagen host at 01:30 UTC of the night
  the zone leaves summer time, \<^verbatim>\<open>deleteAsync\<close> is called with the token that expired at
  01:00 UTC. The guard's adjusted now is 00:35 UTC (see C4), so the guard lets the token
  through, and the request is sent: the server is called once and the operation returns.
\<close>

theorem deleteAsync_fall_back_hour_sends_request:
  "credential (DeleteAsync education stale_token ''{}'') = Some stale_token
   \<and> verifyAuthToken_expiresDate fall_back_night stale_token = Some 1792890000000
   \<and> 1792890000000 \<le> Date_now fall_back_night + 5 * 60000
   \<and> invoke fall_back_night reserved_example
        (Copyleaks_constructor (always_answers ok_response) (always_answers ok_response))
        (DeleteAsync education stale_token ''{}'') 0
       = (Inr None, [Requested (descriptor (DeleteAsync education stale_token ''{}''))], 1)"
proof -
  have e: "verifyAuthToken_expiresDate fall_back_night stale_token = Some 1792890000000"
    by code_simp
  have n: "1792890000000 \<le> Date_now fall_back_night + 5 * 60000"
    by (simp add: fall_back_night_def)
  have v: "verifyAuthToken fall_back_night stale_token 5 = Inr ()"
    by code_simp
  have a: "admitted fall_back_night (DeleteAsync education stale_token ''{}'')"
    using v by (simp add: admitted_def)
  have r: "request (descriptor (DeleteAsync education stale_token ''{}''))
        (instance_of (Copyleaks_constructor (always_answers ok_response)
           (always_answers ok_response)) (DeleteAsync education stale_token ''{}'')) 10 2000 0
       = (Inr ok_response, [Requested (descriptor (DeleteAsync education stale_token ''{}''))], 1)"
    by (simp add: request_returns Copyleaks_constructor_def axios_create_def always_answers_def
        ok_response_def del: descriptor.simps)
  have i: "invoke fall_back_night reserved_example
        (Copyleaks_constructor (always_answers ok_response) (always_answers ok_response))
        (DeleteAsync education stale_token ''{}'') 0
       = (Inr None, [Requested (descriptor (DeleteAsync education stale_token ''{}''))], 1)"
    using r
    by (simp add: invoke_admitted [OF a] isSuccessStatusCode_def ok_response_def
        del: invoke.simps descriptor.simps)
  show ?thesis
    using e n i by simp
qed

section \<open>The public operations: classification of a response\<close>

text \<open>
  The tests an operation makes on a response that \<^verbatim>\<open>request\<close> returns to it, in the
  order of the source: success first, then under maintenance, then, in the six operations
  that have the branch (\<open>tests_rate_limit\<close>), the rate limit, and
  \<^verbatim>\<open>CommandException\<close> with the whole response for the rest.
\<close>

lemma invoke_classifies_response:
  assumes "admitted rt c"
    and "request (descriptor c) (instance_of this c) 10 2000 w = (Inr resp, tr, w')"
  shows "invoke rt rv this c w =
     (if isSuccessStatusCode (status resp) then Inr (returned c resp)
      else if isUnderMaintenanceResponse rv (status resp) then Inl UnderMaintenanceException
      else if tests_rate_limit c \<and> isRateLimitResponse rv (status resp)
        then Inl RateLimitException
      else Inl (CommandException resp), tr, w')"
  using assms(2) by (simp add: invoke_admitted [OF assms(1)])

text \<open>
  Seven operations have no \<^verbatim>\<open>isRateLimitResponse\<close> branch. For them a response that is
  neither a success nor under maintenance gives \<^verbatim>\<open>CommandException\<close>, whatever the
  reserved rate-limit value is.
\<close>

lemma rate_limit_not_tested:
  assumes "admitted rt c" and "\<not> tests_rate_limit c"
    and "request (descriptor c) (instance_of this c) 10 2000 w = (Inr resp, tr, w')"
    and "\<not> isSuccessStatusCode (status resp)"
    and "\<not> isUnderMaintenanceResponse rv (status resp)"
  shows "invoke rt rv this c w = (Inl (CommandException resp), tr, w')"
  using assms(2-5) by (simp add: invoke_admitted [OF assms(1)])

text \<open>
  Through an instance built by the constructor, \<^verbatim>\<open>request\<close> only ever returns a response
  whose status is from 200 to 299: every other answer is raised by axios, and
  \<^verbatim>\<open>request\<close> retries it or throws it.
\<close>

lemma request_axios_returns_success:
  "request config (axios_create server) retries backoff w = (Inr resp, tr, w')
   \<Longrightarrow> isSuccessStatusCode (status resp)"
proof (induction config "axios_create server" retries backoff w arbitrary: tr w'
    rule: request.induct)
  case (1 config retries backoff w)
  show ?case
  proof (cases rule: request_cases [of "axios_create server" config w retries backoff])
    case (returned resp' w2)
    then have "resp' = resp" using "1.prems" by simp
    then show ?thesis
      using returned(1)
      by (auto simp: axios_create_def isSuccessStatusCode_def
          split: prod.splits answer.splits if_splits)
  next
    case (raised error w2)
    then show ?thesis using "1.prems" by simp
  next
    case (retried error w2 r tr2 w3)
    then have "request config (axios_create server) (retries - 1) (backoff * 2) w2
        = (Inr resp, tr2, w3)"
      using "1.prems" by simp
    then show ?thesis
      using "1.hyps" [OF retried(1) [symmetric] refl retried(2,3)] by blast
  qed
qed

lemma instance_of_constructor:
  "\<exists>server. instance_of (Copyleaks_constructor api_server identity_server) c = axios_create server"
  by (cases c) (auto simp: Copyleaks_constructor_def)

text \<open>
  So on a client built by the constructor an admitted operation either returns or throws
  what \<^verbatim>\<open>request\<close> threw: none of \<^verbatim>\<open>UnderMaintenanceException\<close>,
  \<^verbatim>\<open>RateLimitException\<close> and \<^verbatim>\<open>CommandException\<close> is ever thrown, whatever the servers
  answer and whatever the reserved values are.
\<close>

lemma invoke_constructor_never_classifies:
  assumes "admitted rt c"
  shows "case invoke rt rv (Copyleaks_constructor api_server identity_server) c w of
           (out, tr, w') \<Rightarrow>
             (\<exists>resp. out = Inr (returned c resp)) \<or> (\<exists>error. out = Inl (thrown c error))"
proof -
  obtain server where s:
    "instance_of (Copyleaks_constructor api_server identity_server) c = axios_create server"
    using instance_of_constructor by blast
  obtain r tr w' where q: "request (descriptor c) (axios_create server) 10 2000 w = (r, tr, w')"
    by (cases "request (descriptor c) (axios_create server) 10 2000 w") auto
  show ?thesis
  proof (cases r)
    case (Inl error)
    then show ?thesis
      using q by (auto simp: invoke_admitted [OF assms] s)
  next
    case (Inr resp)
    have "isSuccessStatusCode (status resp)"
      using q [unfolded Inr] by (rule request_axios_returns_success)
    then show ?thesis
      using q Inr by (auto simp: invoke_admitted [OF assms] s)
  qed
qed

text \<open>
  C5. The claim asks that the reserved under-maintenance status yield
  \<^verbatim>\<open>UnderMaintenanceException\<close>, as the doc comment of every operation says. The server
  answers \<^verbatim>\<open>getCreditsBalanceAsync\<close> with that status. axios raises the answer as an
  error, \<^verbatim>\<open>request\<close> does not retry a 512 and throws the error, and the operation, which
  has no catch, throws it on: the caller gets the axios error, and the test for the
  under-maintenance status is never reached.
\<close>

theorem getCreditsBalanceAsync_maintenance_status_unclassified:
  "isUnderMaintenanceResponse reserved_example (status maintenance_response)
   \<and> invoke utc_midday reserved_example
        (Copyleaks_constructor (always_answers maintenance_response)
           (always_answers maintenance_response))
        (GetCreditsBalanceAsync education midday_token) 0
       = (Inl (AxiosError \<lparr>response = Some maintenance_response,
                           code = Some ''ERR_BAD_RESPONSE''\<rparr>),
          [Requested (descriptor (GetCreditsBalanceAsync education midday_token)),
           Log_error (Some 512) 10 2000], 1)
   \<and> AxiosError \<lparr>response = Some maintenance_response, code = Some ''ERR_BAD_RESPONSE''\<rparr>
       \<noteq> UnderMaintenanceException"
proof -
  have a: "admitted utc_midday (GetCreditsBalanceAsync education midday_token)"
    by code_simp
  have r: "request (descriptor (GetCreditsBalanceAsync education midday_token))
        (instance_of (Copyleaks_constructor (always_answers maintenance_response)
           (always_answers maintenance_response)) (GetCreditsBalanceAsync education midday_token))
        10 2000 0
       = (Inl \<lparr>response = Some maintenance_response, code = Some ''ERR_BAD_RESPONSE''\<rparr>,
          [Requested (descriptor (GetCreditsBalanceAsync education midday_token)),
           Log_error (Some 512) 10 2000], 1)"
    by (simp add: request.simps Copyleaks_constructor_def axios_create_def always_answers_def
        maintenance_response_def response_error_code_def retryable_def logged_status_def
        del: descriptor.simps)
  show ?thesis
    using r
    by (simp add: invoke_admitted [OF a] isUnderMaintenanceResponse_def reserved_example_def
        maintenance_response_def del: invoke.simps descriptor.simps)
qed

section \<open>The public operations: errors thrown by the executor\<close>

text \<open>
  C8 as stated fails: \<^verbatim>\<open>submitFileAsync\<close> catches the 404 error that \<^verbatim>\<open>request\<close>
  throws and throws a new \<^verbatim>\<open>Error\<close> with a message of its own; the caught error is
  its cause.
\<close>

theorem submitFileAsync_wraps_error:
  "invoke utc_midday reserved_example (client (always_raises not_found))
        (SubmitFileAsync education midday_token ''scan-1'' ''{}'') 0
       = (Inl (Error ''Failed to submit file to Copyleaks API for scan with ID 'scan-1'.''
                 (AxiosError not_found)),
          [Requested (descriptor (SubmitFileAsync education midday_token ''scan-1'' ''{}'')),
           Log_error (Some 404) 10 2000], 1)
   \<and> Error ''Failed to submit file to Copyleaks API for scan with ID 'scan-1'.''
        (AxiosError not_found) \<noteq> AxiosError not_found"
proof -
  have a: "admitted utc_midday (SubmitFileAsync education midday_token ''scan-1'' ''{}'')"
    by code_simp
  have r: "request (descriptor (SubmitFileAsync education midday_token ''scan-1'' ''{}''))
        (instance_of (client (always_raises not_found))
           (SubmitFileAsync education midday_token ''scan-1'' ''{}'')) 10 2000 0
       = (Inl not_found,
          [Requested (descriptor (SubmitFileAsync education midday_token ''scan-1'' ''{}'')),
           Log_error (Some 404) 10 2000], 1)"
    by (simp add: request.simps client_def always_raises_def not_found_def retryable_def
        logged_status_def del: descriptor.simps)
  show ?thesis
    using r by (simp add: invoke_admitted [OF a] del: invoke.simps descriptor.simps)
qed

text \<open>
  C8, amended. When \<^verbatim>\<open>request\<close> throws in an admitted operation, the operation throws
  \<open>thrown c error\<close>: the error itself, unchanged, in every operation but
  \<^verbatim>\<open>submitFileAsync\<close>, and in \<^verbatim>\<open>submitFileAsync\<close> a new \<^verbatim>\<open>Error\<close> that names the
  scan and holds the error, unchanged, as its cause. No operation swallows the error; the
  trace and the world are those of \<^verbatim>\<open>request\<close>.
\<close>

theorem invoke_propagates_error:
  assumes "admitted rt c"
    and "request (descriptor c) (instance_of this c) 10 2000 w = (Inl error, tr, w')"
  shows "invoke rt rv this c w = (Inl (thrown c error), tr, w')"
  using assms(2) by (simp add: invoke_admitted [OF assms(1)])

text \<open>\<^verbatim>\<open>deleteAsync\<close> on a 404 error: the error reaches the caller as it was raised.\<close>

theorem invoke_propagates_error_witness:
  "admitted utc_midday (DeleteAsync education midday_token ''{}'')
   \<and> request (descriptor (DeleteAsync education midday_token ''{}''))
        (instance_of (client (always_raises not_found)) (DeleteAsync education midday_token ''{}''))
        10 2000 0
       = (Inl not_found,
          [Requested (descriptor (DeleteAsync education midday_token ''{}'')),
           Log_error (Some 404) 10 2000], 1)
   \<and> invoke utc_midday reserved_example (client (always_raises not_found))
        (DeleteAsync education midday_token ''{}'') 0
       = (Inl (AxiosError not_found),
          [Requested (descriptor (DeleteAsync education midday_token ''{}'')),
           Log_error (Some 404) 10 2000], 1)"
proof -
  have a: "admitted utc_midday (DeleteAsync education midday_token ''{}'')"
    by code_simp
  have r: "request (descriptor (DeleteAsync education midday_token ''{}''))
        (instance_of (client (always_raises not_found)) (DeleteAsync education midday_token ''{}''))
        10 2000 0
       = (Inl not_found,
          [Requested (descriptor (DeleteAsync education midday_token ''{}'')),
           Log_error (Some 404) 10 2000], 1)"
    by (simp add: request.simps client_def always_raises_def not_found_def retryable_def
        logged_status_def del: descriptor.simps)
  show ?thesis
    using a r invoke_propagates_error [OF a r, of reserved_example]
    by (simp del: invoke.simps descriptor.simps)
qed


section \<open>An end-to-end scenario of the spec\<close>

text \<open>
  Scenario A: two retries allowed, a first delay of 100, and a transport that raises 502
  twice and then returns 200. The executor waits 100, then 200, and returns the response
  after the third call.
\<close>

lemma scenario_A:
  "request release_notes (raises_then_returns 2 bad_gateway ok_response) 2 100 0 =
     (Inr ok_response,
      [Requested release_notes, Log_error (Some 502) 2 100, Log_backoff release_notes, Timeout 100,
       Requested release_notes, Log_error (Some 502) 1 200, Log_backoff release_notes, Timeout 200,
       Requested release_notes],
      3)"
  by (simp add: request.simps raises_then_returns_def bad_gateway_def retryable_def
      logged_status_def)

end
